theory Spec2Isabelle
  imports
    Complex_Main
    "HOL-Library.AList"
    "HOL-Library.Char_ord"
    "HOL-Library.List_Lexorder"
    "HOL-Library.Product_Lexorder"
begin

section \<open>Values of a table cell\<close>

text \<open>
  The dashboard script \<^verbatim>\<open>streamlit_app/app.py\<close> works on pandas tables read from CSV
  files. A numeric cell is a float64. The embedding keeps the special values of float64
  (not-a-number, which pandas also uses for a missing cell, and the two infinities that a
  division by zero produces) and takes every finite value as a real number: finite results
  are not rounded and do not overflow, and the sign of a zero is not kept (a zero divisor
  counts as \<open>+0.0\<close>).
\<close>

datatype f64 = Num real | PInf | NInf | NaN

text \<open>A cell of a column read by \<^verbatim>\<open>pd.read_csv\<close>: text, or a float64 (missing is \<open>Flt NaN\<close>).\<close>

datatype cell = is_Str: Str (un_Str: string) | Flt f64

datatype pyerr = KeyError string | TypeError | ValueError | AttributeError

fun fsgn :: "f64 \<Rightarrow> real" where
  "fsgn (Num a) = sgn a"
| "fsgn PInf = 1"
| "fsgn NInf = - 1"
| "fsgn NaN = 0"

definition inf_signed :: "real \<Rightarrow> f64" where
  "inf_signed s = (if 0 < s then PInf else if s < 0 then NInf else NaN)"

fun fneg :: "f64 \<Rightarrow> f64" where
  "fneg (Num a) = Num (- a)"
| "fneg PInf = NInf"
| "fneg NInf = PInf"
| "fneg NaN = NaN"

fun fadd :: "f64 \<Rightarrow> f64 \<Rightarrow> f64" where
  "fadd NaN y = NaN"
| "fadd x NaN = NaN"
| "fadd (Num a) (Num b) = Num (a + b)"
| "fadd PInf NInf = NaN"
| "fadd NInf PInf = NaN"
| "fadd PInf y = PInf"
| "fadd NInf y = NInf"
| "fadd (Num a) y = y"

definition fsub :: "f64 \<Rightarrow> f64 \<Rightarrow> f64" where
  "fsub x y = fadd x (fneg y)"

fun fmul :: "f64 \<Rightarrow> f64 \<Rightarrow> f64" where
  "fmul NaN y = NaN"
| "fmul x NaN = NaN"
| "fmul (Num a) (Num b) = Num (a * b)"
| "fmul x y = inf_signed (fsgn x * fsgn y)"

fun fdiv :: "f64 \<Rightarrow> f64 \<Rightarrow> f64" where
  "fdiv NaN y = NaN"
| "fdiv x NaN = NaN"
| "fdiv (Num a) (Num b) = (if b = 0 then inf_signed (sgn a) else Num (a / b))"
| "fdiv (Num a) y = Num 0"
| "fdiv x (Num b) = inf_signed (fsgn x * (if b < 0 then - 1 else 1))"
| "fdiv x y = NaN"

section \<open>Tables\<close>

text \<open>
  A \<^verbatim>\<open>DataFrame\<close>: the length of its index and its columns in order, each a name
  and one cell per row. \<^verbatim>\<open>pd.read_csv\<close> gives distinct column names.
\<close>

record frame =
  nrows :: nat
  cols :: "(string \<times> cell list) list"

definition columns :: "frame \<Rightarrow> string list" where
  "columns df = map fst (cols df)"

definition wf_frame :: "frame \<Rightarrow> bool" where
  "wf_frame df = (distinct (columns df) \<and> list_all (\<lambda>c. length (snd c) = nrows df) (cols df))"

text \<open>\<^verbatim>\<open>df[name]\<close> raises \<^verbatim>\<open>KeyError\<close> on a column that is not there.\<close>

definition getitem :: "frame \<Rightarrow> string \<Rightarrow> pyerr + cell list" where
  "getitem df name = (case map_of (cols df) name of None \<Rightarrow> Inl (KeyError name) | Some c \<Rightarrow> Inr c)"

text \<open>\<^verbatim>\<open>df[name] = column\<close> replaces the column in place or appends it.\<close>

definition setitem :: "frame \<Rightarrow> string \<Rightarrow> cell list \<Rightarrow> frame" where
  "setitem df name c = df\<lparr>cols := AList.update name c (cols df)\<rparr>"

text \<open>\<^verbatim>\<open>df.empty\<close>: one of the two axes has length zero.\<close>

definition empty_frame :: "frame \<Rightarrow> bool" where
  "empty_frame df = (nrows df = 0 \<or> cols df = [])"

section \<open>Column arithmetic\<close>

text \<open>
  Arithmetic on a column works on float64 values; a text cell in an operand makes the
  element-wise operation raise \<^verbatim>\<open>TypeError\<close>. The two operands are columns of one
  table, of the same length.
\<close>

fun to_floats :: "cell list \<Rightarrow> pyerr + f64 list" where
  "to_floats [] = Inr []"
| "to_floats (Str s # cs) = Inl TypeError"
| "to_floats (Flt x # cs) = (case to_floats cs of Inl e \<Rightarrow> Inl e | Inr xs \<Rightarrow> Inr (x # xs))"

definition col_binop :: "(f64 \<Rightarrow> f64 \<Rightarrow> f64) \<Rightarrow> cell list \<Rightarrow> cell list \<Rightarrow> pyerr + cell list" where
  "col_binop f a b =
     (case to_floats a of Inl e \<Rightarrow> Inl e | Inr xs \<Rightarrow>
     (case to_floats b of Inl e \<Rightarrow> Inl e | Inr ys \<Rightarrow>
        Inr (map (\<lambda>(x, y). Flt (f x y)) (zip xs ys))))"

definition col_scalar :: "(f64 \<Rightarrow> f64 \<Rightarrow> f64) \<Rightarrow> cell list \<Rightarrow> f64 \<Rightarrow> pyerr + cell list" where
  "col_scalar f a k =
     (case to_floats a of Inl e \<Rightarrow> Inl e | Inr xs \<Rightarrow> Inr (map (\<lambda>x. Flt (f x k)) xs))"

text \<open>
  \<^verbatim>\<open>column.astype(float)\<close>: a float64 cell stays, a text cell goes through Python's
  \<^verbatim>\<open>float()\<close>, which is the parameter \<open>pf\<close> (\<open>None\<close> where it raises
  \<^verbatim>\<open>ValueError\<close>).
\<close>

fun astype_float :: "(string \<Rightarrow> real option) \<Rightarrow> cell list \<Rightarrow> pyerr + cell list" where
  "astype_float pf [] = Inr []"
| "astype_float pf (c # cs) =
     (case (case c of Flt x \<Rightarrow> Some (Flt x) | Str s \<Rightarrow> map_option (\<lambda>r. Flt (Num r)) (pf s)) of
        None \<Rightarrow> Inl ValueError
      | Some c' \<Rightarrow> (case astype_float pf cs of Inl e \<Rightarrow> Inl e | Inr cs' \<Rightarrow> Inr (c' # cs')))"

text \<open>
  \<^verbatim>\<open>column.mean()\<close> skips missing cells: pandas puts zero in their place, adds all
  cells up and divides by the number of cells that are not missing; with none the result
  is not-a-number. On a column with a text cell it raises \<^verbatim>\<open>TypeError\<close>.
\<close>

definition mean :: "cell list \<Rightarrow> pyerr + f64" where
  "mean c =
     (case to_floats c of Inl e \<Rightarrow> Inl e | Inr xs \<Rightarrow>
        let total = foldl fadd (Num 0) (map (\<lambda>x. if x = NaN then Num 0 else x) xs);
            count = length (filter (\<lambda>x. x \<noteq> NaN) xs)
        in Inr (if count = 0 then NaN else fdiv total (Num (real count))))"

section \<open>The derived metrics (lines 37 to 49 of the script)\<close>

definition average_m2 :: f64 where
  "average_m2 = Num 70"

definition gastos_anuales :: f64 where
  "gastos_anuales = Num 3000"

text \<open>Lines 37 and 38: the price column is made float only when it is there.\<close>

definition coerce_price :: "(string \<Rightarrow> real option) \<Rightarrow> frame \<Rightarrow> pyerr + frame" where
  "coerce_price pf df =
     (if ''price'' \<in> set (columns df) then
        (case getitem df ''price'' of Inl e \<Rightarrow> Inl e | Inr c \<Rightarrow>
        (case astype_float pf c of Inl e \<Rightarrow> Inl e | Inr c' \<Rightarrow> Inr (setitem df ''price'' c')))
      else Inr df)"

text \<open>Lines 39 to 42: the reference price per square metre.\<close>

definition precio_m2_valencia :: "frame \<Rightarrow> pyerr + f64" where
  "precio_m2_valencia df_inmobiliario =
     (if ''precio'' \<in> set (columns df_inmobiliario) then
        (case getitem df_inmobiliario ''precio'' of Inl e \<Rightarrow> Inl e | Inr c \<Rightarrow> mean c)
      else Inr (Num 2000))"

text \<open>Line 44.\<close>

definition set_annual_income :: "frame \<Rightarrow> pyerr + frame" where
  "set_annual_income df =
     (case getitem df ''price'' of Inl e \<Rightarrow> Inl e | Inr price \<Rightarrow>
     (case getitem df ''days_rented'' of Inl e \<Rightarrow> Inl e | Inr days_rented \<Rightarrow>
     (case col_binop fmul price days_rented of Inl e \<Rightarrow> Inl e | Inr c \<Rightarrow>
        Inr (setitem df ''annual_income'' c))))"

text \<open>Line 45: one number, written into every row.\<close>

definition set_estimated_property_value :: "f64 \<Rightarrow> frame \<Rightarrow> frame" where
  "set_estimated_property_value p df =
     setitem df ''estimated_property_value'' (replicate (nrows df) (Flt (fmul p average_m2)))"

text \<open>Lines 46 and 49: \<^verbatim>\<open>df[roi] = (df[income] / df['estimated_property_value']) * 100\<close>.\<close>

definition set_roi :: "string \<Rightarrow> string \<Rightarrow> frame \<Rightarrow> pyerr + frame" where
  "set_roi roi income df =
     (case getitem df income of Inl e \<Rightarrow> Inl e | Inr a \<Rightarrow>
     (case getitem df ''estimated_property_value'' of Inl e \<Rightarrow> Inl e | Inr v \<Rightarrow>
     (case col_binop fdiv a v of Inl e \<Rightarrow> Inl e | Inr q \<Rightarrow>
     (case col_scalar fmul q (Num 100) of Inl e \<Rightarrow> Inl e | Inr c \<Rightarrow>
        Inr (setitem df roi c)))))"

text \<open>Lines 47 and 48.\<close>

definition set_net_annual_income :: "frame \<Rightarrow> pyerr + frame" where
  "set_net_annual_income df =
     (case getitem df ''annual_income'' of Inl e \<Rightarrow> Inl e | Inr a \<Rightarrow>
     (case col_scalar fsub a gastos_anuales of Inl e \<Rightarrow> Inl e | Inr c \<Rightarrow>
        Inr (setitem df ''net_annual_income'' c)))"

definition computeMetrics :: "(string \<Rightarrow> real option) \<Rightarrow> frame \<Rightarrow> frame \<Rightarrow> pyerr + frame" where
  "computeMetrics pf df df_inmobiliario =
     (case coerce_price pf df of Inl e \<Rightarrow> Inl e | Inr df1 \<Rightarrow>
     (case precio_m2_valencia df_inmobiliario of Inl e \<Rightarrow> Inl e | Inr p \<Rightarrow>
     (case set_annual_income df1 of Inl e \<Rightarrow> Inl e | Inr df2 \<Rightarrow>
     (case set_roi ''ROI (%)'' ''annual_income'' (set_estimated_property_value p df2) of
        Inl e \<Rightarrow> Inl e | Inr df3 \<Rightarrow>
     (case set_net_annual_income df3 of Inl e \<Rightarrow> Inl e | Inr df4 \<Rightarrow>
        set_roi ''Net ROI (%)'' ''net_annual_income'' df4)))))"

section \<open>Selecting rows\<close>

text \<open>\<^verbatim>\<open>df[mask]\<close> keeps the rows where the mask is true, in every column.\<close>

definition select_rows :: "bool list \<Rightarrow> 'a list \<Rightarrow> 'a list" where
  "select_rows keep c = map fst (filter snd (zip c keep))"

definition loc_mask :: "frame \<Rightarrow> bool list \<Rightarrow> frame" where
  "loc_mask df keep =
     \<lparr>nrows = length (filter id keep), cols = map (\<lambda>(name, c). (name, select_rows keep c)) (cols df)\<rparr>"

text \<open>
  Text is a list of bytes (UTF-8). \<^verbatim>\<open>str.lower()\<close> is taken on the ASCII letters;
  the bytes of any other character stay as they are.
\<close>

definition lower_char :: "char \<Rightarrow> char" where
  "lower_char c = (let n = (of_char c :: nat) in if 65 \<le> n \<and> n \<le> 90 then char_of (n + 32) else c)"

definition lower :: "string \<Rightarrow> string" where
  "lower s = map lower_char s"

text \<open>
  \<^verbatim>\<open>column.str\<close> is there for a column of text only (\<^verbatim>\<open>AttributeError\<close> otherwise).
  \<^verbatim>\<open>pd.read_csv\<close> makes a column a text column when one of its cells is text, or when
  the table has no row. \<^verbatim>\<open>.str.lower()\<close> gives a missing cell where the cell is not text.
\<close>

definition has_str_accessor :: "cell list \<Rightarrow> bool" where
  "has_str_accessor c = (c = [] \<or> list_ex is_Str c)"

definition str_lower :: "cell list \<Rightarrow> pyerr + cell list" where
  "str_lower c =
     (if has_str_accessor c
      then Inr (map (\<lambda>x. case x of Str s \<Rightarrow> Str (lower s) | Flt v \<Rightarrow> Flt NaN) c)
      else Inl AttributeError)"

text \<open>\<^verbatim>\<open>column == text\<close>, cell by cell.\<close>

definition eq_scalar :: "cell list \<Rightarrow> string \<Rightarrow> bool list" where
  "eq_scalar c s = map (\<lambda>x. x = Str s) c"

definition dropna :: "cell list \<Rightarrow> cell list" where
  "dropna c = filter (\<lambda>x. x \<noteq> Flt NaN) c"

text \<open>\<^verbatim>\<open>column.unique()\<close> keeps the first occurrence of each value.\<close>

definition unique :: "'a list \<Rightarrow> 'a list" where
  "unique xs = rev (remdups (rev xs))"

text \<open>
  Python's \<^verbatim>\<open>sorted\<close>: text by code points, numbers by value, \<^verbatim>\<open>TypeError\<close> on a
  list that mixes the two. (No not-a-number reaches it in the script: \<^verbatim>\<open>dropna\<close>
  comes first.)
\<close>

fun num_key :: "cell \<Rightarrow> int \<times> real" where
  "num_key (Flt NInf) = (- 1, 0)"
| "num_key (Flt (Num a)) = (0, a)"
| "num_key (Flt PInf) = (1, 0)"
| "num_key c = (2, 0)"

definition sorted_py :: "cell list \<Rightarrow> pyerr + cell list" where
  "sorted_py xs =
     (if list_all is_Str xs then Inr (map Str (sort (map un_Str xs)))
      else if list_all (\<lambda>x. \<not> is_Str x) xs then Inr (sort_key num_key xs)
      else Inl TypeError)"

text \<open>\<^verbatim>\<open>column.isin(values)\<close>.\<close>

definition isin :: "cell list \<Rightarrow> cell list \<Rightarrow> bool list" where
  "isin c vs = map (\<lambda>x. x \<in> set vs) c"

section \<open>The page\<close>

text \<open>What the script shows on the page, in order.\<close>

datatype ui = Error string | Text string | Warning string | Sidebar_warning string

text \<open>How a run ends early: \<^verbatim>\<open>st.stop()\<close>, or an exception that nothing catches.\<close>

datatype halt = Stop | Raise pyerr

text \<open>
  \<^verbatim>\<open>st.sidebar.multiselect(label, options=..., default=...)\<close> returns what the user has
  picked, and the default as long as the user has picked nothing (\<open>None\<close>). Only the
  offered options can be picked.
\<close>

definition multiselect :: "cell list \<Rightarrow> cell list \<Rightarrow> cell list option \<Rightarrow> cell list" where
  "multiselect opts dflt choice =
     (case choice of None \<Rightarrow> dflt | Some picked \<Rightarrow> filter (\<lambda>x. x \<in> set opts) picked)"

section \<open>The filters (lines 54 to 75)\<close>

text \<open>Line 54: the cities offered by the select box.\<close>

definition ciudades :: "string list" where
  "ciudades = [''Valencia'', ''Malaga'', ''Madrid'', ''Barcelona'']"

text \<open>Line 57: the rows of the selected city, whatever the case of the letters.\<close>

definition narrow_city :: "string \<Rightarrow> frame \<Rightarrow> pyerr + frame" where
  "narrow_city ciudad_seleccionada df =
     (case getitem df ''city'' of Inl e \<Rightarrow> Inl e | Inr c \<Rightarrow>
     (case str_lower c of Inl e \<Rightarrow> Inl e | Inr lc \<Rightarrow>
        Inr (loc_mask df (eq_scalar lc (lower ciudad_seleccionada)))))"

text \<open>Lines 61 and 70: the districts offered are those of the table at hand.\<close>

definition barrios_of :: "frame \<Rightarrow> pyerr + cell list" where
  "barrios_of df =
     (case getitem df ''neighbourhood'' of Inl e \<Rightarrow> Inl e | Inr c \<Rightarrow> sorted_py (unique (dropna c)))"

text \<open>Lines 63 and 72.\<close>

definition narrow_barrios :: "cell list \<Rightarrow> frame \<Rightarrow> pyerr + frame" where
  "narrow_barrios selected_barrios df =
     (case getitem df ''neighbourhood'' of Inl e \<Rightarrow> Inl e | Inr c \<Rightarrow>
        Inr (loc_mask df (isin c selected_barrios)))"

text \<open>
  Lines 61 to 66 and lines 70 to 75 are the same code but for the text of the warning.
\<close>

definition filter_barrios :: "string \<Rightarrow> cell list option \<Rightarrow> frame \<Rightarrow> ui list \<times> (halt + frame)" where
  "filter_barrios msg choice df =
     (case barrios_of df of Inl e \<Rightarrow> ([], Inl (Raise e)) | Inr barrios \<Rightarrow>
     (case narrow_barrios (multiselect barrios barrios choice) df of
        Inl e \<Rightarrow> ([], Inl (Raise e))
      | Inr df' \<Rightarrow> if empty_frame df' then ([Warning msg], Inl Stop) else ([], Inr df')))"

definition no_city_notice :: string where
  "no_city_notice = ''No se encontr'' @ [CHR 0xC3, CHR 0xB3] @ '' la columna '' @ [CHR 0x27] @ ''city''
     @ [CHR 0x27] @ '' en los datos. Mostrando todos los datos.''"

text \<open>
  \<open>ciudad_seleccionada\<close> is the value of the select box over \<open>ciudades\<close>, and \<open>choice\<close>
  what the user has picked in the multiselect of districts.
\<close>

definition filter_listings :: "string \<Rightarrow> cell list option \<Rightarrow> frame \<Rightarrow> ui list \<times> (halt + frame)" where
  "filter_listings ciudad_seleccionada choice df =
     (if ''city'' \<in> set (columns df) then
        (case narrow_city ciudad_seleccionada df of Inl e \<Rightarrow> ([], Inl (Raise e)) | Inr df_ciudad \<Rightarrow>
           if empty_frame df_ciudad
           then ([Warning ''No hay datos para la ciudad seleccionada.''], Inl Stop)
           else filter_barrios ''No hay datos para los barrios seleccionados en la ciudad.''
                  choice df_ciudad)
      else
        (case filter_barrios ''No hay datos para los barrios seleccionados.'' choice df of
           (shown, r) \<Rightarrow> (Sidebar_warning no_city_notice # shown, r)))"

section \<open>Loading (lines 21 to 33) and the whole run\<close>

text \<open>
  What one \<^verbatim>\<open>pd.read_csv\<close> call does: it raises, with a message and a traceback, or
  it returns a table.
\<close>

datatype csv_read = is_error: Read_error string string | Read_ok frame

definition load_failed :: "string \<Rightarrow> string \<Rightarrow> ui list \<times> (frame option \<times> frame option \<times> frame option)" where
  "load_failed e trace = ([Error (''Error al cargar los datos: '' @ e), Text trace], (None, None, None))"

text \<open>The three reads are made in order; the first that raises ends the \<^verbatim>\<open>try\<close> block.\<close>

definition load_data :: "csv_read \<Rightarrow> csv_read \<Rightarrow> csv_read \<Rightarrow> ui list \<times> (frame option \<times> frame option \<times> frame option)" where
  "load_data r1 r2 r3 =
     (case r1 of Read_error e t \<Rightarrow> load_failed e t | Read_ok df \<Rightarrow>
     (case r2 of Read_error e t \<Rightarrow> load_failed e t | Read_ok df_inmobiliario \<Rightarrow>
     (case r3 of Read_error e t \<Rightarrow> load_failed e t | Read_ok df_delincuencia \<Rightarrow>
        ([], (Some df, Some df_inmobiliario, Some df_delincuencia)))))"

text \<open>
  Lines 33 to 78: the run up to the table that the tabs and the download read. The result
  is what the page shows and either that table or how the run ended early.
\<close>

definition script :: "(string \<Rightarrow> real option) \<Rightarrow> string \<Rightarrow> cell list option \<Rightarrow>
    csv_read \<Rightarrow> csv_read \<Rightarrow> csv_read \<Rightarrow> ui list \<times> (halt + frame)" where
  "script pf ciudad_seleccionada choice r1 r2 r3 =
     (case load_data r1 r2 r3 of (shown0, (df, df_inmobiliario, df_delincuencia)) \<Rightarrow>
        if df \<noteq> None \<and> df_inmobiliario \<noteq> None then
          (case computeMetrics pf (the df) (the df_inmobiliario) of
             Inl e \<Rightarrow> (shown0, Inl (Raise e))
           | Inr df' \<Rightarrow>
               (case filter_listings ciudad_seleccionada choice df' of (shown, r) \<Rightarrow> (shown0 @ shown, r)))
        else (shown0 @ [Warning ''No hay datos disponibles.''], Inl Stop))"

section \<open>The scenario of the specification and the words of the specification\<close>

definition scenario_listings :: frame where
  "scenario_listings =
     \<lparr>nrows = 1,
      cols = [(''city'', [Str ''Valencia'']), (''neighbourhood'', [Str ''Russafa'']),
              (''price'', [Flt (Num 50)]), (''days_rented'', [Flt (Num 100)])]\<rparr>"

definition scenario_sale_prices :: frame where
  "scenario_sale_prices =
     \<lparr>nrows = 3,
      cols = [(''neighbourhood'', [Str ''Russafa'', Str ''Benimaclet'', Str ''El Carme'']),
              (''precio'', [Flt (Num 2000), Flt NaN, Flt (Num 3000)])]\<rparr>"

definition sale_prices_without_precio :: frame where
  "sale_prices_without_precio =
     \<lparr>nrows = 1, cols = [(''neighbourhood'', [Str ''Russafa'']), (''superficie'', [Flt (Num 80)])]\<rparr>"

definition listings_without_price :: frame where
  "listings_without_price =
     \<lparr>nrows = 1,
      cols = [(''city'', [Str ''Valencia'']), (''neighbourhood'', [Str ''Russafa'']),
              (''days_rented'', [Flt (Num 100)])]\<rparr>"

text \<open>
  The arithmetic mean in the words of the specification: the sum of the values that are
  not missing, divided by their number. (Of no value at all it is \<open>0 / 0\<close>, not-a-number.)
\<close>

definition arithmetic_mean :: "f64 list \<Rightarrow> f64" where
  "arithmetic_mean vs = fdiv (foldr fadd vs (Num 0)) (Num (real (length vs)))"

definition example_listings :: frame where
  "example_listings =
     \<lparr>nrows = 4,
      cols = [(''city'', [Str ''Valencia'', Str ''VALENCIA'', Str ''Madrid'', Str ''valencia'']),
              (''neighbourhood'', [Str ''Russafa'', Flt NaN, Str ''Sol'', Str ''Benimaclet'']),
              (''price'', [Flt (Num 50), Flt (Num 60), Flt (Num 70), Flt (Num 80)]),
              (''days_rented'', [Flt (Num 100), Flt (Num 150), Flt (Num 300), Flt (Num 200)])]\<rparr>"

definition example_filtered :: frame where
  "example_filtered =
     \<lparr>nrows = 2,
      cols = [(''city'', [Str ''Valencia'', Str ''valencia'']),
              (''neighbourhood'', [Str ''Russafa'', Str ''Benimaclet'']),
              (''price'', [Flt (Num 50), Flt (Num 80)]),
              (''days_rented'', [Flt (Num 100), Flt (Num 200)])]\<rparr>"

definition example_augmented :: frame where
  "example_augmented =
     \<lparr>nrows = 2,
      cols = [(''city'', [Str ''Valencia'', Str ''valencia'']),
              (''neighbourhood'', [Str ''Russafa'', Str ''Benimaclet'']),
              (''price'', [Flt (Num 50), Flt (Num 80)]),
              (''days_rented'', [Flt (Num 100), Flt (Num 200)]),
              (''annual_income'', [Flt (Num 5000), Flt (Num 16000)]),
              (''estimated_property_value'', [Flt (Num 175000), Flt (Num 175000)]),
              (''ROI (%)'', [Flt (Num (20 / 7)), Flt (Num (64 / 7))]),
              (''net_annual_income'', [Flt (Num 2000), Flt (Num 13000)]),
              (''Net ROI (%)'', [Flt (Num (8 / 7)), Flt (Num (52 / 7))])]\<rparr>"

definition listings_without_neighbourhood :: frame where
  "listings_without_neighbourhood =
     \<lparr>nrows = 1, cols = [(''city'', [Str ''Valencia'']), (''price'', [Flt (Num 50)])]\<rparr>"

definition listings_without_city :: frame where
  "listings_without_city =
     \<lparr>nrows = 1, cols = [(''neighbourhood'', [Str ''Russafa'']), (''price'', [Flt (Num 50)])]\<rparr>"

section \<open>The filters in the words of the specification\<close>

text \<open>A table seen row by row: a row gives each column name its cell.\<close>

type_synonym row = "(string \<times> cell) list"

definition row_at :: "frame \<Rightarrow> nat \<Rightarrow> row" where
  "row_at df i = map (\<lambda>(name, c). (name, c ! i)) (cols df)"

definition rows :: "frame \<Rightarrow> row list" where
  "rows df = map (row_at df) [0..<nrows df]"

text \<open>The city of a cell, and of a row, equals the selected city when case is ignored.\<close>

definition city_cell_matches :: "string \<Rightarrow> cell \<Rightarrow> bool" where
  "city_cell_matches ciudad x = (case x of Str s \<Rightarrow> lower s = lower ciudad | Flt v \<Rightarrow> False)"

definition city_matches :: "string \<Rightarrow> row \<Rightarrow> bool" where
  "city_matches ciudad r =
     (case map_of r ''city'' of Some (Str s) \<Rightarrow> lower s = lower ciudad | _ \<Rightarrow> False)"

text \<open>The neighbourhood universe of some rows: their neighbourhood values that are not missing.\<close>

definition universe_of :: "row list \<Rightarrow> cell set" where
  "universe_of rs =
     set (filter (\<lambda>x. x \<noteq> Flt NaN) (List.map_filter (\<lambda>r. map_of r ''neighbourhood'') rs))"

text \<open>The neighbourhood of a row is, letter for letter, one of the values to keep.\<close>

definition in_keep_set :: "cell list \<Rightarrow> row \<Rightarrow> bool" where
  "in_keep_set keep r =
     (case map_of r ''neighbourhood'' of Some x \<Rightarrow> x \<in> set keep | None \<Rightarrow> False)"

text \<open>Alphabetical order of text (by code point), numeric order of numbers.\<close>

fun cell_less :: "cell \<Rightarrow> cell \<Rightarrow> bool" where
  "cell_less (Str a) (Str b) = (a < b)"
| "cell_less (Flt x) (Flt y) = (num_key (Flt x) < num_key (Flt y))"
| "cell_less a b = False"

section \<open>Columns of a table\<close>

lemma getitem_setitem: "getitem (setitem df n c) m = (if m = n then Inr c else getitem df m)"
  by (simp add: getitem_def setitem_def update_conv')

lemma nrows_setitem: "nrows (setitem df n c) = nrows df"
  by (simp add: setitem_def)

lemma columns_setitem: "set (columns (setitem df n c)) = insert n (set (columns df))"
  by (simp add: columns_def setitem_def AList.dom_update)

lemma getitem_KeyError: "name \<notin> set (columns df) \<Longrightarrow> getitem df name = Inl (KeyError name)"
  using map_of_eq_None_iff[of "cols df" name] by (simp add: getitem_def columns_def)

lemma getitem_Inr_columns: "getitem df name = Inr c \<Longrightarrow> name \<in> set (columns df)"
  using getitem_KeyError[of name df] by auto

lemma to_floats_map: "to_floats (map (\<lambda>x. Flt (f x)) xs) = Inr (map f xs)"
  by (induction xs) simp_all

lemma to_floats_map_Flt: "to_floats (map Flt xs) = Inr xs"
  by (induction xs) simp_all

lemma to_floats_map2: "to_floats (map (\<lambda>(x, y). Flt (f x y)) zs) = Inr (map (\<lambda>(x, y). f x y) zs)"
  by (induction zs) auto

lemma to_floats_map_comp: "to_floats (map ((\<lambda>x. Flt (f x)) \<circ> g) zs) = Inr (map (f \<circ> g) zs)"
  by (induction zs) simp_all

lemma to_floats_replicate: "to_floats (replicate n (Flt v)) = Inr (replicate n v)"
  by (induction n) simp_all

section \<open>The steps of the metrics\<close>





lemma coerce_price_nrows: "coerce_price pf df = Inr df1 \<Longrightarrow> nrows df1 = nrows df"
  by (auto simp: coerce_price_def nrows_setitem split: if_splits sum.splits)

lemma computeMetrics_Inr:
  assumes "coerce_price pf df = Inr df1" and "precio_m2_valencia s = Inr p"
    and "getitem df1 ''price'' = Inr (map Flt xs)"
    and "getitem df1 ''days_rented'' = Inr (map Flt ys)"
  shows "\<exists>df'. computeMetrics pf df s = Inr df' \<and>
     getitem df' ''estimated_property_value'' = Inr (replicate (nrows df) (Flt (fmul p average_m2)))"
  using assms coerce_price_nrows[OF assms(1)]
  by (simp add: computeMetrics_def set_annual_income_def set_estimated_property_value_def
      set_roi_def set_net_annual_income_def col_binop_def col_scalar_def getitem_setitem
      nrows_setitem to_floats_map to_floats_map_Flt to_floats_map2 to_floats_map_comp
      to_floats_replicate)

lemma computeMetrics_no_price:
  assumes "''price'' \<notin> set (columns df)" and "precio_m2_valencia s = Inr p"
  shows "computeMetrics pf df s = Inl (KeyError ''price'')"
  using assms
  by (simp add: computeMetrics_def coerce_price_def set_annual_income_def getitem_KeyError)

lemmas metrics_defs =
  computeMetrics_def coerce_price_def set_annual_income_def set_estimated_property_value_def
  set_roi_def set_net_annual_income_def col_binop_def col_scalar_def getitem_def setitem_def
  columns_def average_m2_def gastos_anuales_def fsub_def

lemma scenario_sale_prices_mean: "precio_m2_valencia scenario_sale_prices = Inr (Num 2500)"
  by (simp add: precio_m2_valencia_def scenario_sale_prices_def columns_def getitem_def mean_def)

section \<open>The mean\<close>

lemma fadd_zero_left: "fadd (Num 0) x = x"
  by (cases x) simp_all

lemma fadd_zero_right: "fadd x (Num 0) = x"
  by (cases x) simp_all

lemma fadd_assoc: "fadd (fadd x y) z = fadd x (fadd y z)"
  by (cases x; cases y; cases z) simp_all

lemma foldl_fadd: "foldl fadd a xs = fadd a (foldr fadd xs (Num 0))"
  by (induction xs arbitrary: a) (simp_all add: fadd_zero_right fadd_assoc)

lemma masked_sum:
  "foldr fadd (map (\<lambda>x. if x = NaN then Num 0 else x) xs) (Num 0) =
   foldr fadd (filter (\<lambda>x. x \<noteq> NaN) xs) (Num 0)"
  by (induction xs) (simp_all add: fadd_zero_left)

lemma mean_arithmetic_mean:
  "to_floats c = Inr xs \<Longrightarrow> mean c = Inr (arithmetic_mean (filter (\<lambda>x. x \<noteq> NaN) xs))"
  by (simp add: mean_def arithmetic_mean_def Let_def foldl_fadd masked_sum fadd_zero_left
      inf_signed_def)

lemma foldr_fadd_Num: "foldr fadd (map Num rs) (Num 0) = Num (sum_list rs)"
  by (induction rs) simp_all

lemma arithmetic_mean_Num:
  "rs \<noteq> [] \<Longrightarrow> arithmetic_mean (map Num rs) = Num (sum_list rs / real (length rs))"
  by (simp add: arithmetic_mean_def foldr_fadd_Num)

section \<open>The derived metrics: results\<close>

text \<open>
  Claim C2. On the one listing of Valencia, Russafa, at a price of 50 for 100 days rented,
  and with a table of sale prices whose mean \<^verbatim>\<open>precio\<close> is 2500, the metrics give an
  estimated property value of 175000, an annual income of 5000, a net annual income of
  2000, a gross ROI of 20/7 per cent, which is 2.857 to three decimals, and a net ROI of
  8/7 per cent, which is 1.143 to three decimals.
\<close>

theorem scenario_metrics:
  assumes "precio_m2_valencia df_inmobiliario = Inr (Num 2500)"
  shows "computeMetrics pf scenario_listings df_inmobiliario =
     Inr \<lparr>nrows = 1,
          cols = [(''city'', [Str ''Valencia'']), (''neighbourhood'', [Str ''Russafa'']),
                  (''price'', [Flt (Num 50)]), (''days_rented'', [Flt (Num 100)]),
                  (''annual_income'', [Flt (Num 5000)]),
                  (''estimated_property_value'', [Flt (Num 175000)]),
                  (''ROI (%)'', [Flt (Num (20 / 7))]),
                  (''net_annual_income'', [Flt (Num 2000)]),
                  (''Net ROI (%)'', [Flt (Num (8 / 7))])]\<rparr>
     \<and> \<bar>20 / 7 - 2.857\<bar> < (0.0005 :: real) \<and> \<bar>8 / 7 - 1.143\<bar> < (0.0005 :: real)"
  using assms by (simp add: metrics_defs scenario_listings_def)

theorem scenario_metrics_witness:
  "precio_m2_valencia scenario_sale_prices = Inr (Num 2500) \<and>
   computeMetrics (\<lambda>s. None) scenario_listings scenario_sale_prices =
     Inr \<lparr>nrows = 1,
          cols = [(''city'', [Str ''Valencia'']), (''neighbourhood'', [Str ''Russafa'']),
                  (''price'', [Flt (Num 50)]), (''days_rented'', [Flt (Num 100)]),
                  (''annual_income'', [Flt (Num 5000)]),
                  (''estimated_property_value'', [Flt (Num 175000)]),
                  (''ROI (%)'', [Flt (Num (20 / 7))]),
                  (''net_annual_income'', [Flt (Num 2000)]),
                  (''Net ROI (%)'', [Flt (Num (8 / 7))])]\<rparr>"
  using scenario_sale_prices_mean
    scenario_metrics[OF scenario_sale_prices_mean, of "\<lambda>s. None"]
  by simp



text \<open>
  Claim C4. A table of sale prices without the column \<^verbatim>\<open>precio\<close> gives the reference
  price 2000 and no error, and the metrics of listings with numeric price and days then
  complete with 2000 times 70 as the property value. With the column there (and numeric),
  the reference price is the arithmetic mean of its cells that are not missing; for
  finite cells that is their sum divided by their number.
\<close>

theorem reference_price_fallback_and_mean:
  "(''precio'' \<notin> set (columns s0) \<longrightarrow>
      precio_m2_valencia s0 = Inr (Num 2000) \<and>
      (coerce_price pf df = Inr df1 \<and> getitem df1 ''price'' = Inr (map Flt ps) \<and>
       getitem df1 ''days_rented'' = Inr (map Flt ds) \<longrightarrow>
         (\<exists>df'. computeMetrics pf df s0 = Inr df' \<and>
            getitem df' ''estimated_property_value'' =
              Inr (replicate (nrows df) (Flt (Num 140000)))))) \<and>
   (getitem s1 ''precio'' = Inr c \<and> to_floats c = Inr xs \<longrightarrow>
      precio_m2_valencia s1 = Inr (arithmetic_mean (filter (\<lambda>x. x \<noteq> NaN) xs)) \<and>
      (filter (\<lambda>x. x \<noteq> NaN) xs = map Num rs \<and> rs \<noteq> [] \<longrightarrow>
         precio_m2_valencia s1 = Inr (Num (sum_list rs / real (length rs)))))"
proof (intro conjI impI)
  assume a: "''precio'' \<notin> set (columns s0)"
  then show p: "precio_m2_valencia s0 = Inr (Num 2000)"
    by (simp add: precio_m2_valencia_def)
  assume "coerce_price pf df = Inr df1 \<and> getitem df1 ''price'' = Inr (map Flt ps) \<and>
       getitem df1 ''days_rented'' = Inr (map Flt ds)"
  then show "\<exists>df'. computeMetrics pf df s0 = Inr df' \<and>
      getitem df' ''estimated_property_value'' = Inr (replicate (nrows df) (Flt (Num 140000)))"
    using computeMetrics_Inr[of pf df df1 s0 "Num 2000" ps ds] p
    by (simp add: average_m2_def)
next
  assume b: "getitem s1 ''precio'' = Inr c \<and> to_floats c = Inr xs"
  then have "''precio'' \<in> set (columns s1)"
    using getitem_Inr_columns by blast
  with b show m: "precio_m2_valencia s1 = Inr (arithmetic_mean (filter (\<lambda>x. x \<noteq> NaN) xs))"
    by (simp add: precio_m2_valencia_def mean_arithmetic_mean)
  assume "filter (\<lambda>x. x \<noteq> NaN) xs = map Num rs \<and> rs \<noteq> []"
  with m show "precio_m2_valencia s1 = Inr (Num (sum_list rs / real (length rs)))"
    by (simp add: arithmetic_mean_Num)
qed

theorem reference_price_fallback_and_mean_witness:
  "''precio'' \<notin> set (columns sale_prices_without_precio) \<and>
   precio_m2_valencia sale_prices_without_precio = Inr (Num 2000) \<and>
   (\<exists>df'. computeMetrics (\<lambda>s. None) scenario_listings sale_prices_without_precio = Inr df' \<and>
      getitem df' ''estimated_property_value'' = Inr [Flt (Num 140000)]) \<and>
   getitem scenario_sale_prices ''precio'' = Inr [Flt (Num 2000), Flt NaN, Flt (Num 3000)] \<and>
   to_floats [Flt (Num 2000), Flt NaN, Flt (Num 3000)] = Inr [Num 2000, NaN, Num 3000] \<and>
   precio_m2_valencia scenario_sale_prices = Inr (Num ((2000 + 3000) / 2))"
proof -
  have h0: "''precio'' \<notin> set (columns sale_prices_without_precio)"
    by (simp add: sale_prices_without_precio_def columns_def)
  have h1: "coerce_price (\<lambda>s. None) scenario_listings = Inr scenario_listings \<and>
      getitem scenario_listings ''price'' = Inr (map Flt [Num 50]) \<and>
      getitem scenario_listings ''days_rented'' = Inr (map Flt [Num 100])"
    by (simp add: coerce_price_def scenario_listings_def columns_def getitem_def setitem_def)
  have h2: "getitem scenario_sale_prices ''precio'' = Inr [Flt (Num 2000), Flt NaN, Flt (Num 3000)] \<and>
      to_floats [Flt (Num 2000), Flt NaN, Flt (Num 3000)] = Inr [Num 2000, NaN, Num 3000]"
    by (simp add: scenario_sale_prices_def getitem_def)
  have h3: "filter (\<lambda>x. x \<noteq> NaN) [Num 2000, NaN, Num 3000] = map Num [2000, 3000] \<and>
      [2000, 3000 :: real] \<noteq> []"
    by simp
  show ?thesis
    using h0 h1 h2 h3
      reference_price_fallback_and_mean[of sale_prices_without_precio "\<lambda>s. None"
        scenario_listings scenario_listings "[Num 50]" "[Num 100]" scenario_sale_prices
        "[Flt (Num 2000), Flt NaN, Flt (Num 3000)]" "[Num 2000, NaN, Num 3000]" "[2000, 3000]"]
    by (auto simp: scenario_listings_def)
qed

text \<open>
  Claim C9. On listings without the column \<^verbatim>\<open>price\<close> the coercion of lines 37 and 38 is
  skipped and leaves the table as it is, and line 44 then reads \<^verbatim>\<open>df['price']\<close> all the
  same: the metrics end in \<^verbatim>\<open>KeyError\<close> and return no table.
\<close>

theorem metrics_without_price_raise:
  "''price'' \<notin> set (columns listings_without_price) \<and>
   coerce_price (\<lambda>s. None) listings_without_price = Inr listings_without_price \<and>
   computeMetrics (\<lambda>s. None) listings_without_price scenario_sale_prices = Inl (KeyError ''price'')"
  by (simp add: metrics_defs listings_without_price_def scenario_sale_prices_mean)

section \<open>Loading: results\<close>



section \<open>Selecting rows: lemmas\<close>

lemma select_rows_Nil: "select_rows keep [] = []"
  by (simp add: select_rows_def)

lemma select_rows_Cons: "select_rows (b # bs) (x # xs) = (if b then x # select_rows bs xs else select_rows bs xs)"
  by (simp add: select_rows_def)

lemma select_rows_map_pred: "select_rows (map P xs) xs = filter P xs"
  by (induction xs) (simp_all add: select_rows_Nil select_rows_Cons)

lemma select_rows_map: "select_rows keep (map f xs) = map f (select_rows keep xs)"
  by (simp add: select_rows_def zip_map1 filter_map o_def split_def)

lemma set_select_rows: "set (select_rows keep xs) \<subseteq> set xs"
  by (auto simp: select_rows_def dest: set_zip_leftD)

lemma length_select_rows: "length keep = length xs \<Longrightarrow> length (select_rows keep xs) = length (filter id keep)"
  by (induction keep xs rule: list_induct2) (simp_all add: select_rows_Nil select_rows_Cons)

lemma select_rows_all: "length keep = length xs \<Longrightarrow> list_all id keep \<Longrightarrow> select_rows keep xs = xs"
  by (induction keep xs rule: list_induct2) (simp_all add: select_rows_Nil select_rows_Cons)

lemma select_rows_nth: "length keep = length xs \<Longrightarrow> select_rows keep xs = map (nth xs) (select_rows keep [0..<length xs])"
proof -
  have "select_rows keep (map (nth xs) [0..<length xs]) = map (nth xs) (select_rows keep [0..<length xs])"
    by (rule select_rows_map)
  then show ?thesis by (simp add: map_nth)
qed

section \<open>Tables under a selection of rows\<close>

lemma wf_frame_length: "wf_frame df \<Longrightarrow> getitem df name = Inr c \<Longrightarrow> length c = nrows df"
  by (auto simp: wf_frame_def getitem_def list_all_iff split: option.splits dest!: map_of_SomeD)

lemma columns_loc_mask: "columns (loc_mask df keep) = columns df"
  by (simp add: columns_def loc_mask_def o_def split_def)

lemma getitem_loc_mask:
  "getitem (loc_mask df keep) name = (case getitem df name of Inl e \<Rightarrow> Inl e | Inr c \<Rightarrow> Inr (select_rows keep c))"
  by (simp add: getitem_def loc_mask_def map_of_map split: option.splits)

lemma wf_loc_mask: "wf_frame df \<Longrightarrow> length keep = nrows df \<Longrightarrow> wf_frame (loc_mask df keep)"
  unfolding wf_frame_def columns_loc_mask
  by (auto simp: loc_mask_def list_all_iff length_select_rows)

lemma loc_mask_all: "wf_frame df \<Longrightarrow> list_all id keep \<Longrightarrow> length keep = nrows df \<Longrightarrow> loc_mask df keep = df"
proof -
  assume wf: "wf_frame df" and k: "list_all id keep" and l: "length keep = nrows df"
  have "map (\<lambda>(name, c). (name, select_rows keep c)) (cols df) = cols df"
    using wf k l by (intro map_idI) (auto simp: wf_frame_def list_all_iff select_rows_all)
  moreover have "length (filter id keep) = nrows df"
    using k l by (simp add: list_all_iff filter_id_conv)
  ultimately show ?thesis by (simp add: loc_mask_def)
qed

lemma row_at_loc_mask:
  assumes "wf_frame df" "length keep = nrows df" "j < length (filter id keep)"
  shows "row_at (loc_mask df keep) j = row_at df (select_rows keep [0..<nrows df] ! j)"
proof -
  have "\<And>name c. (name, c) \<in> set (cols df) \<Longrightarrow> select_rows keep c ! j = c ! (select_rows keep [0..<nrows df] ! j)"
  proof -
    fix name c assume "(name, c) \<in> set (cols df)"
    then have len: "length c = nrows df" using assms(1) by (auto simp: wf_frame_def list_all_iff)
    then have "select_rows keep c = map (nth c) (select_rows keep [0..<nrows df])"
      using select_rows_nth[of keep c] assms(2) by simp
    moreover have "j < length (select_rows keep [0..<nrows df])"
      using assms by (simp add: length_select_rows)
    ultimately show "select_rows keep c ! j = c ! (select_rows keep [0..<nrows df] ! j)" by simp
  qed
  then show ?thesis
    by (auto simp: row_at_def loc_mask_def)
qed

lemma rows_loc_mask:
  assumes "wf_frame df" "length keep = nrows df"
  shows "rows (loc_mask df keep) = select_rows keep (rows df)"
proof -
  have "rows (loc_mask df keep) = map (row_at (loc_mask df keep)) [0..<length (filter id keep)]"
    by (simp add: rows_def loc_mask_def)
  also have "\<dots> = map (\<lambda>j. row_at df (select_rows keep [0..<nrows df] ! j)) [0..<length (filter id keep)]"
    using assms by (intro map_cong) (auto simp: row_at_loc_mask)
  also have "\<dots> = map (row_at df) (map (nth (select_rows keep [0..<nrows df])) [0..<length (select_rows keep [0..<nrows df])])"
    using assms by (simp add: length_select_rows)
  also have "\<dots> = map (row_at df) (select_rows keep [0..<nrows df])"
    by (simp only: map_nth)
  also have "\<dots> = select_rows keep (rows df)"
    by (simp add: rows_def select_rows_map)
  finally show ?thesis .
qed

section \<open>The districts offered\<close>

lemma set_unique: "set (unique xs) = set xs"
  by (simp add: unique_def)

lemma distinct_unique: "distinct (unique xs)"
  by (simp add: unique_def)

lemma set_dropna: "set (dropna c) = set c - {Flt NaN}"
  by (auto simp: dropna_def)

lemma map_Str_un_Str: "list_all is_Str xs \<Longrightarrow> map Str (map un_Str xs) = xs"
  by (induction xs) simp_all

lemma distinct_map_un_Str: "list_all is_Str xs \<Longrightarrow> distinct xs \<Longrightarrow> distinct (map un_Str xs)"
proof -
  assume a: "list_all is_Str xs" and d: "distinct xs"
  have "inj_on un_Str (set xs)"
  proof (rule inj_onI)
    fix a b assume "a \<in> set xs" "b \<in> set xs" "un_Str a = un_Str b"
    with a show "a = b" by (cases a; cases b) (auto simp: list_all_iff)
  qed
  with d show ?thesis by (simp add: distinct_map)
qed

lemma sorted_wrt_map_Str: "sorted_wrt (<) zs \<Longrightarrow> sorted_wrt cell_less (map Str zs)"
  by (induction zs) auto

lemma num_key_inj: "\<not> is_Str a \<Longrightarrow> \<not> is_Str b \<Longrightarrow> num_key a = num_key b \<Longrightarrow> a = b"
  by (cases a; cases b) (auto elim!: num_key.elims)

lemma cell_less_num_key: "\<not> is_Str a \<Longrightarrow> \<not> is_Str b \<Longrightarrow> cell_less a b = (num_key a < num_key b)"
  by (cases a; cases b) simp_all

lemma sorted_py_Inr:
  assumes "sorted_py xs = Inr ys" and "distinct xs"
  shows "sorted_wrt cell_less ys \<and> set ys = set xs"
proof (cases "list_all is_Str xs")
  case True
  then have ys: "ys = map Str (sort (map un_Str xs))"
    using assms(1) by (simp add: sorted_py_def)
  have "sorted_wrt (<) (sort (map un_Str xs))"
    using distinct_map_un_Str[OF True assms(2)] by (simp add: strict_sorted_iff)
  then have "sorted_wrt cell_less ys"
    unfolding ys by (rule sorted_wrt_map_Str)
  moreover have "set ys = set xs"
  proof -
    have "set ys = set (map Str (map un_Str xs))" unfolding ys by (simp add: image_image o_def)
    also have "\<dots> = set xs" using True by (simp only: map_Str_un_Str)
    finally show ?thesis .
  qed
  ultimately show ?thesis by simp
next
  case False
  then have n: "list_all (\<lambda>x. \<not> is_Str x) xs" and ys: "ys = sort_key num_key xs"
    using assms(1) by (auto simp: sorted_py_def split: if_splits)
  have inj: "inj_on num_key (set xs)"
    using n by (auto simp: inj_on_def list_all_iff intro: num_key_inj)
  have "distinct (map num_key ys)"
    unfolding ys using assms(2) inj by (simp add: distinct_map)
  moreover have "sorted (map num_key ys)"
    unfolding ys by simp
  ultimately have "sorted_wrt (<) (map num_key ys)"
    by (simp add: strict_sorted_iff)
  then have "sorted_wrt (\<lambda>a b. num_key a < num_key b) ys"
    by (simp add: sorted_wrt_map)
  moreover have "\<forall>a \<in> set ys. \<not> is_Str a"
    unfolding ys using n by (simp add: list_all_iff)
  ultimately have "sorted_wrt cell_less ys"
    by (auto intro: sorted_wrt_mono_rel[rotated] simp: cell_less_num_key)
  then show ?thesis unfolding ys by simp
qed

lemma sorted_py_subset:
  assumes "sorted_py xs = Inr ys" and "set zs \<subseteq> set xs"
  shows "\<exists>ws. sorted_py zs = Inr ws"
proof (cases "list_all is_Str xs")
  case True
  then have "list_all is_Str zs" using assms(2) by (auto simp: list_all_iff)
  then show ?thesis by (simp add: sorted_py_def)
next
  case False
  then have "list_all (\<lambda>x. \<not> is_Str x) xs"
    using assms(1) by (auto simp: sorted_py_def split: if_splits)
  then have "list_all (\<lambda>x. \<not> is_Str x) zs" using assms(2) by (auto simp: list_all_iff)
  then show ?thesis by (simp add: sorted_py_def)
qed

section \<open>Rows and columns\<close>

lemma map_of_row_at: "map_of (row_at df i) name = map_option (\<lambda>c. c ! i) (map_of (cols df) name)"
  by (simp add: row_at_def map_of_map)

lemma rows_column:
  assumes "wf_frame df" and "getitem df name = Inr c"
  shows "map (\<lambda>r. map_of r name) (rows df) = map Some c"
proof -
  have len: "length c = nrows df" using assms by (rule wf_frame_length)
  have m: "map_of (cols df) name = Some c"
    using assms(2) by (simp add: getitem_def split: option.splits)
  have "map (\<lambda>r. map_of r name) (rows df) = map (\<lambda>i. Some (c ! i)) [0..<length c]"
    by (simp add: rows_def map_of_row_at m len o_def)
  also have "\<dots> = map Some (map (nth c) [0..<length c])" by (simp add: o_def)
  also have "\<dots> = map Some c" by (simp only: map_nth)
  finally show ?thesis .
qed

lemma rows_no_column:
  assumes "name \<notin> set (columns df)"
  shows "map (\<lambda>r. map_of r name) (rows df) = map (\<lambda>r. None) (rows df)"
  using assms map_of_eq_None_iff[of "cols df" name]
  by (simp add: rows_def map_of_row_at columns_def o_def)

lemma select_rows_via_column:
  assumes "map key xs = map Some c"
  shows "select_rows (map P c) xs = filter (\<lambda>r. case key r of Some x \<Rightarrow> P x | None \<Rightarrow> False) xs"
  using assms
proof (induction xs arbitrary: c)
  case Nil
  then show ?case by (simp add: select_rows_Nil)
next
  case (Cons x xs)
  then obtain y c' where c: "c = y # c'" "key x = Some y" "map key xs = map Some c'"
    by (cases c) auto
  with Cons.IH[of c'] show ?case by (simp add: select_rows_Cons)
qed

section \<open>The steps of the filters\<close>

lemma map_filter_column: "map key xs = map Some c \<Longrightarrow> List.map_filter key xs = c"
proof (induction xs arbitrary: c)
  case Nil
  then show ?case by (simp add: map_filter_simps)
next
  case (Cons x xs)
  then obtain y c' where "c = y # c'" "key x = Some y" "map key xs = map Some c'"
    by (cases c) auto
  with Cons.IH[of c'] show ?case by (simp add: map_filter_simps)
qed

lemma universe_of_column:
  assumes "wf_frame df" and "getitem df ''neighbourhood'' = Inr c"
  shows "universe_of (rows df) = set c - {Flt NaN}"
  using map_filter_column[OF rows_column[OF assms]] by (auto simp: universe_of_def)

lemma narrow_city_Inr:
  assumes "narrow_city ciudad df = Inr d"
  obtains c where "getitem df ''city'' = Inr c" and "has_str_accessor c"
    and "d = loc_mask df (map (city_cell_matches ciudad) c)"
proof -
  from assms obtain c lc where c: "getitem df ''city'' = Inr c" and lc: "str_lower c = Inr lc"
    and d: "d = loc_mask df (eq_scalar lc (lower ciudad))"
    by (auto simp: narrow_city_def split: sum.splits)
  from lc have h: "has_str_accessor c"
    and lc': "lc = map (\<lambda>x. case x of Str s \<Rightarrow> Str (lower s) | Flt v \<Rightarrow> Flt NaN) c"
    by (auto simp: str_lower_def split: if_splits)
  have "eq_scalar lc (lower ciudad) = map (city_cell_matches ciudad) c"
    unfolding lc' eq_scalar_def by (auto simp: city_cell_matches_def split: cell.splits)
  with c h d show ?thesis using that by simp
qed

lemma city_matches_cell:
  "city_matches ciudad r = (case map_of r ''city'' of Some x \<Rightarrow> city_cell_matches ciudad x | None \<Rightarrow> False)"
  by (simp add: city_matches_def city_cell_matches_def split: option.splits cell.splits)

lemma narrow_city_rows:
  assumes "wf_frame df" and "narrow_city ciudad df = Inr d"
  shows "rows d = filter (city_matches ciudad) (rows df) \<and> wf_frame d \<and> columns d = columns df"
proof -
  from assms(2) obtain c where c: "getitem df ''city'' = Inr c"
    and d: "d = loc_mask df (map (city_cell_matches ciudad) c)"
    by (rule narrow_city_Inr)
  have len: "length (map (city_cell_matches ciudad) c) = nrows df"
    using wf_frame_length[OF assms(1) c] by simp
  have "rows d = select_rows (map (city_cell_matches ciudad) c) (rows df)"
    unfolding d using assms(1) len by (rule rows_loc_mask)
  also have "\<dots> = filter (city_matches ciudad) (rows df)"
    using select_rows_via_column[OF rows_column[OF assms(1) c], of "city_cell_matches ciudad"]
    by (simp add: city_matches_cell[abs_def])
  finally have "rows d = filter (city_matches ciudad) (rows df)" .
  moreover have "wf_frame d" unfolding d using assms(1) len by (rule wf_loc_mask)
  moreover have "columns d = columns df" unfolding d by (rule columns_loc_mask)
  ultimately show ?thesis by simp
qed

lemma barrios_of_Inr:
  assumes "barrios_of d = Inr barrios"
  obtains c where "getitem d ''neighbourhood'' = Inr c"
    and "sorted_py (unique (dropna c)) = Inr barrios"
    and "sorted_wrt cell_less barrios" and "set barrios = set c - {Flt NaN}"
proof -
  from assms obtain c where c: "getitem d ''neighbourhood'' = Inr c"
    and s: "sorted_py (unique (dropna c)) = Inr barrios"
    by (auto simp: barrios_of_def split: sum.splits)
  from sorted_py_Inr[OF s distinct_unique]
  have "sorted_wrt cell_less barrios" and "set barrios = set c - {Flt NaN}"
    by (simp_all add: set_unique set_dropna)
  with c s show ?thesis using that by blast
qed

lemma narrow_barrios_Inr:
  assumes "narrow_barrios keep d = Inr out"
  obtains c where "getitem d ''neighbourhood'' = Inr c"
    and "out = loc_mask d (map (\<lambda>x. x \<in> set keep) c)"
  using assms by (auto simp: narrow_barrios_def isin_def split: sum.splits)

lemma narrow_barrios_rows:
  assumes "wf_frame d" and "narrow_barrios keep d = Inr out"
  shows "rows out = filter (in_keep_set keep) (rows d) \<and> wf_frame out \<and> columns out = columns d"
proof -
  from assms(2) obtain c where c: "getitem d ''neighbourhood'' = Inr c"
    and out: "out = loc_mask d (map (\<lambda>x. x \<in> set keep) c)"
    by (rule narrow_barrios_Inr)
  have len: "length (map (\<lambda>x. x \<in> set keep) c) = nrows d"
    using wf_frame_length[OF assms(1) c] by simp
  have "rows out = select_rows (map (\<lambda>x. x \<in> set keep) c) (rows d)"
    unfolding out using assms(1) len by (rule rows_loc_mask)
  also have "\<dots> = filter (in_keep_set keep) (rows d)"
    using select_rows_via_column[OF rows_column[OF assms(1) c], of "\<lambda>x. x \<in> set keep"]
    by (simp add: in_keep_set_def[abs_def])
  finally have "rows out = filter (in_keep_set keep) (rows d)" .
  moreover have "wf_frame out" unfolding out using assms(1) len by (rule wf_loc_mask)
  moreover have "columns out = columns d" unfolding out by (rule columns_loc_mask)
  ultimately show ?thesis by simp
qed

lemma filter_barrios_Inr:
  assumes "filter_barrios msg choice d = (shown, Inr out)"
  obtains barrios where "barrios_of d = Inr barrios"
    and "narrow_barrios (multiselect barrios barrios choice) d = Inr out"
    and "\<not> empty_frame out" and "shown = []"
  using assms by (auto simp: filter_barrios_def split: sum.splits if_splits)

lemma filter_listings_Inr:
  assumes "filter_listings ciudad choice df = (shown, Inr out)"
  obtains (city) d where "''city'' \<in> set (columns df)" and "narrow_city ciudad df = Inr d"
      and "\<not> empty_frame d"
      and "filter_barrios ''No hay datos para los barrios seleccionados en la ciudad.'' choice d = (shown, Inr out)"
  | (no_city) "''city'' \<notin> set (columns df)"
      and "filter_barrios ''No hay datos para los barrios seleccionados.'' choice df = ([], Inr out)"
      and "shown = [Sidebar_warning no_city_notice]"
proof (cases "''city'' \<in> set (columns df)")
  case True
  with assms show ?thesis
    using city by (auto simp: filter_listings_def split: sum.splits if_splits)
next
  case False
  with assms obtain sh where
    f: "filter_barrios ''No hay datos para los barrios seleccionados.'' choice df = (sh, Inr out)"
    and sh: "shown = Sidebar_warning no_city_notice # sh"
    by (auto simp: filter_listings_def split: prod.splits)
  from f have "sh = []" by (rule filter_barrios_Inr)
  with f sh False show ?thesis using no_city by simp
qed

lemma set_multiselect: "set (multiselect barrios barrios choice) \<subseteq> set barrios"
  by (auto simp: multiselect_def split: option.splits)

lemma filter_barrios_rows:
  assumes "wf_frame d" and "filter_barrios msg choice d = (shown, Inr out)"
  obtains barrios where "sorted_wrt cell_less barrios" and "set barrios = universe_of (rows d)"
    and "Flt NaN \<notin> set barrios"
    and "rows out = filter (in_keep_set (multiselect barrios barrios choice)) (rows d)"
    and "columns out = columns d" and "wf_frame out"
proof -
  from assms(2) obtain barrios where b: "barrios_of d = Inr barrios"
    and n: "narrow_barrios (multiselect barrios barrios choice) d = Inr out"
    by (rule filter_barrios_Inr)
  from b obtain c where c: "getitem d ''neighbourhood'' = Inr c"
    and s: "sorted_wrt cell_less barrios" and u: "set barrios = set c - {Flt NaN}"
    by (rule barrios_of_Inr)
  have "set barrios = universe_of (rows d)"
    using u universe_of_column[OF assms(1) c] by simp
  moreover have "Flt NaN \<notin> set barrios" using u by simp
  ultimately show ?thesis
    using that s narrow_barrios_rows[OF assms(1) n] by blast
qed

lemma filter_listings_rows:
  assumes "wf_frame df" and "filter_listings ciudad choice df = (shown, Inr out)"
  obtains barrios where "sorted_wrt cell_less barrios"
    and "set barrios = universe_of
           (if ''city'' \<in> set (columns df) then filter (city_matches ciudad) (rows df) else rows df)"
    and "Flt NaN \<notin> set barrios"
    and "rows out = filter (in_keep_set (multiselect barrios barrios choice))
           (if ''city'' \<in> set (columns df) then filter (city_matches ciudad) (rows df) else rows df)"
    and "columns out = columns df" and "wf_frame out"
  using assms(2)
proof (cases rule: filter_listings_Inr)
  case (city d)
  from narrow_city_rows[OF assms(1) city(2)]
  have r: "rows d = filter (city_matches ciudad) (rows df)" and w: "wf_frame d"
    and cl: "columns d = columns df" by simp_all
  from w city(4) show ?thesis
  proof (rule filter_barrios_rows)
    fix barrios
    assume "sorted_wrt cell_less barrios" "set barrios = universe_of (rows d)"
      "Flt NaN \<notin> set barrios"
      "rows out = filter (in_keep_set (multiselect barrios barrios choice)) (rows d)"
      "columns out = columns d" "wf_frame out"
    then show ?thesis using that[of barrios] city(1) r cl by simp
  qed
next
  case no_city
  from assms(1) no_city(2) show ?thesis
  proof (rule filter_barrios_rows)
    fix barrios
    assume "sorted_wrt cell_less barrios" "set barrios = universe_of (rows df)"
      "Flt NaN \<notin> set barrios"
      "rows out = filter (in_keep_set (multiselect barrios barrios choice)) (rows df)"
      "columns out = columns df" "wf_frame out"
    then show ?thesis using that[of barrios] no_city(1) by simp
  qed
qed

section \<open>The filters: results\<close>


lemma wf_example_listings: "wf_frame example_listings"
  by (simp add: wf_frame_def example_listings_def columns_def)

lemma example_listings_filtered:
  "filter_listings ''Valencia'' None example_listings = ([], Inr example_filtered)"
  by code_simp


lemma filter_barrios_no_missing:
  assumes "filter_barrios msg choice d = (shown, Inr out)"
  shows "\<exists>nb. getitem out ''neighbourhood'' = Inr nb \<and> Flt NaN \<notin> set nb"
proof -
  from assms obtain barrios where b: "barrios_of d = Inr barrios"
    and n: "narrow_barrios (multiselect barrios barrios choice) d = Inr out"
    by (rule filter_barrios_Inr)
  from b obtain c where c: "getitem d ''neighbourhood'' = Inr c"
    and u: "set barrios = set c - {Flt NaN}"
    by (rule barrios_of_Inr)
  from n obtain c' where c': "getitem d ''neighbourhood'' = Inr c'"
    and out: "out = loc_mask d (map (\<lambda>x. x \<in> set (multiselect barrios barrios choice)) c')"
    by (rule narrow_barrios_Inr)
  from c c' have cc: "c' = c" by simp
  have "getitem out ''neighbourhood'' =
      Inr (filter (\<lambda>x. x \<in> set (multiselect barrios barrios choice)) c)"
    unfolding out cc by (simp add: getitem_loc_mask c select_rows_map_pred)
  moreover have "Flt NaN \<notin> set (filter (\<lambda>x. x \<in> set (multiselect barrios barrios choice)) c)"
    using set_multiselect[of barrios choice] u by auto
  ultimately show ?thesis by blast
qed

lemma script_Inr:
  assumes "script pf ciudad choice r1 r2 r3 = (shown, Inr out)"
  shows "\<exists>df' shown'. filter_listings ciudad choice df' = (shown', Inr out)"
  using assms
  by (auto simp: script_def split: prod.splits if_splits sum.splits)

text \<open>
  Claim C10. In a table that the filters hand on, under the default selection as under
  any other, the column \<^verbatim>\<open>neighbourhood\<close> has no missing cell: the rows of the result are
  rows of the table that came in, and none of them has a missing neighbourhood. The same
  holds of the table that a whole run hands to the tabs and to the download.
\<close>

theorem missing_neighbourhood_never_kept:
  "(filter_listings ciudad choice df = (shown, Inr out) \<longrightarrow>
      (\<exists>nb. getitem out ''neighbourhood'' = Inr nb \<and> Flt NaN \<notin> set nb) \<and>
      (wf_frame df \<longrightarrow>
         set (rows out) \<subseteq> set (rows df) \<and>
         list_all (\<lambda>r. map_of r ''neighbourhood'' \<noteq> None \<and>
                       map_of r ''neighbourhood'' \<noteq> Some (Flt NaN)) (rows out))) \<and>
   (script pf ciudad' choice' r1 r2 r3 = (shown', Inr out') \<longrightarrow>
      (\<exists>nb. getitem out' ''neighbourhood'' = Inr nb \<and> Flt NaN \<notin> set nb))"
proof (intro conjI impI)
  assume f: "filter_listings ciudad choice df = (shown, Inr out)"
  then show "\<exists>nb. getitem out ''neighbourhood'' = Inr nb \<and> Flt NaN \<notin> set nb"
    by (cases rule: filter_listings_Inr) (auto dest: filter_barrios_no_missing)
  assume wf: "wf_frame df"
  from wf f obtain barrios where nan: "Flt NaN \<notin> set barrios"
    and r: "rows out = filter (in_keep_set (multiselect barrios barrios choice))
       (if ''city'' \<in> set (columns df) then filter (city_matches ciudad) (rows df) else rows df)"
    by (rule filter_listings_rows)
  from r show "set (rows out) \<subseteq> set (rows df)" by (auto split: if_splits)
  have "\<And>r. in_keep_set (multiselect barrios barrios choice) r \<Longrightarrow>
      map_of r ''neighbourhood'' \<noteq> None \<and> map_of r ''neighbourhood'' \<noteq> Some (Flt NaN)"
    using nan set_multiselect[of barrios choice]
    by (auto simp: in_keep_set_def split: option.splits)
  with r show "list_all (\<lambda>r. map_of r ''neighbourhood'' \<noteq> None \<and>
      map_of r ''neighbourhood'' \<noteq> Some (Flt NaN)) (rows out)"
    by (auto simp: list_all_iff)
next
  assume "script pf ciudad' choice' r1 r2 r3 = (shown', Inr out')"
  then obtain df' sh where f: "filter_listings ciudad' choice' df' = (sh, Inr out')"
    using script_Inr by blast
  then show "\<exists>nb. getitem out' ''neighbourhood'' = Inr nb \<and> Flt NaN \<notin> set nb"
    by (cases rule: filter_listings_Inr) (auto dest: filter_barrios_no_missing)
qed

lemma example_script:
  "script (\<lambda>s. None) ''Valencia'' None (Read_ok example_listings) (Read_ok scenario_sale_prices)
     (Read_ok sale_prices_without_precio) = ([], Inr example_augmented)"
  by code_simp

theorem missing_neighbourhood_never_kept_witness:
  "filter_listings ''Valencia'' None example_listings = ([], Inr example_filtered) \<and>
   getitem example_listings ''neighbourhood'' =
     Inr [Str ''Russafa'', Flt NaN, Str ''Sol'', Str ''Benimaclet''] \<and>
   (\<exists>nb. getitem example_filtered ''neighbourhood'' = Inr nb \<and> Flt NaN \<notin> set nb) \<and>
   wf_frame example_listings \<and>
   set (rows example_filtered) \<subseteq> set (rows example_listings) \<and>
   list_all (\<lambda>r. map_of r ''neighbourhood'' \<noteq> None \<and>
                 map_of r ''neighbourhood'' \<noteq> Some (Flt NaN)) (rows example_filtered) \<and>
   script (\<lambda>s. None) ''Valencia'' None (Read_ok example_listings) (Read_ok scenario_sale_prices)
     (Read_ok sale_prices_without_precio) = ([], Inr example_augmented) \<and>
   (\<exists>nb. getitem example_augmented ''neighbourhood'' = Inr nb \<and> Flt NaN \<notin> set nb)"
proof -
  have g: "getitem example_listings ''neighbourhood'' =
      Inr [Str ''Russafa'', Flt NaN, Str ''Sol'', Str ''Benimaclet'']"
    by (simp add: getitem_def example_listings_def)
  show ?thesis
    using g wf_example_listings example_listings_filtered example_script
      missing_neighbourhood_never_kept[of "''Valencia''" None example_listings "[]"
        example_filtered "\<lambda>s. None" "''Valencia''" None "Read_ok example_listings"
        "Read_ok scenario_sale_prices" "Read_ok sale_prices_without_precio" "[]"
        example_augmented]
    by simp
qed

lemma narrow_city_cols: "narrow_city ciudad df = Inr d \<Longrightarrow> ''city'' \<in> set (columns d)"
  by (auto elim!: narrow_city_Inr simp: columns_loc_mask dest: getitem_Inr_columns)

text \<open>
  Claim C6. When the narrowing by city leaves no row, the filters show the warning that
  there is no data for the selected city and stop, whatever the neighbourhood column
  holds, and also when there is none. When the narrowing by neighbourhood leaves no row,
  with or without a city column, they show the warning of that case and stop. In each
  case no table is handed on, and none of the three warnings is the text shown when the
  data could not be loaded.
\<close>

theorem no_matching_data_stops:
  "(''city'' \<in> set (columns dfa) \<and> narrow_city ciudad dfa = Inr df_ciudad \<and> nrows df_ciudad = 0 \<longrightarrow>
      filter_listings ciudad choice dfa =
        ([Warning ''No hay datos para la ciudad seleccionada.''], Inl Stop)) \<and>
   (''city'' \<in> set (columns dfb) \<and> narrow_city ciudad dfb = Inr df_ciudad' \<and>
    0 < nrows df_ciudad' \<and> barrios_of df_ciudad' = Inr barrios \<and>
    narrow_barrios (multiselect barrios barrios choice) df_ciudad' = Inr df' \<and> nrows df' = 0 \<longrightarrow>
      filter_listings ciudad choice dfb =
        ([Warning ''No hay datos para los barrios seleccionados en la ciudad.''], Inl Stop)) \<and>
   (''city'' \<notin> set (columns dfc) \<and> barrios_of dfc = Inr barrios' \<and>
    narrow_barrios (multiselect barrios' barrios' choice) dfc = Inr df'' \<and> nrows df'' = 0 \<longrightarrow>
      filter_listings ciudad choice dfc =
        ([Sidebar_warning no_city_notice, Warning ''No hay datos para los barrios seleccionados.''],
         Inl Stop)) \<and>
   ''No hay datos disponibles.'' \<notin>
      {''No hay datos para la ciudad seleccionada.'',
       ''No hay datos para los barrios seleccionados en la ciudad.'',
       ''No hay datos para los barrios seleccionados.''}"
proof (intro conjI impI)
  assume "''city'' \<in> set (columns dfa) \<and> narrow_city ciudad dfa = Inr df_ciudad \<and> nrows df_ciudad = 0"
  then show "filter_listings ciudad choice dfa =
      ([Warning ''No hay datos para la ciudad seleccionada.''], Inl Stop)"
    by (simp add: filter_listings_def empty_frame_def)
next
  assume a: "''city'' \<in> set (columns dfb) \<and> narrow_city ciudad dfb = Inr df_ciudad' \<and>
    0 < nrows df_ciudad' \<and> barrios_of df_ciudad' = Inr barrios \<and>
    narrow_barrios (multiselect barrios barrios choice) df_ciudad' = Inr df' \<and> nrows df' = 0"
  then have "cols df_ciudad' \<noteq> []"
    using narrow_city_cols[of ciudad dfb df_ciudad'] by (auto simp: columns_def)
  with a show "filter_listings ciudad choice dfb =
      ([Warning ''No hay datos para los barrios seleccionados en la ciudad.''], Inl Stop)"
    by (simp add: filter_listings_def filter_barrios_def empty_frame_def)
next
  assume "''city'' \<notin> set (columns dfc) \<and> barrios_of dfc = Inr barrios' \<and>
    narrow_barrios (multiselect barrios' barrios' choice) dfc = Inr df'' \<and> nrows df'' = 0"
  then show "filter_listings ciudad choice dfc =
      ([Sidebar_warning no_city_notice, Warning ''No hay datos para los barrios seleccionados.''],
       Inl Stop)"
    by (simp add: filter_listings_def filter_barrios_def empty_frame_def)
next
  show "''No hay datos disponibles.'' \<notin>
      {''No hay datos para la ciudad seleccionada.'',
       ''No hay datos para los barrios seleccionados en la ciudad.'',
       ''No hay datos para los barrios seleccionados.''}"
    by simp
qed

theorem no_matching_data_stops_witness:
  "barrios_of listings_without_neighbourhood = Inl (KeyError ''neighbourhood'') \<and>
   filter_listings ''madrid'' (Some [Str ''Salamanca'']) listings_without_neighbourhood =
     ([Warning ''No hay datos para la ciudad seleccionada.''], Inl Stop) \<and>
   filter_listings ''madrid'' (Some [Str ''Salamanca'']) example_listings =
     ([Warning ''No hay datos para los barrios seleccionados en la ciudad.''], Inl Stop) \<and>
   filter_listings ''madrid'' (Some [Str ''Salamanca'']) listings_without_city =
     ([Sidebar_warning no_city_notice, Warning ''No hay datos para los barrios seleccionados.''],
      Inl Stop)"
proof -
  have k: "barrios_of listings_without_neighbourhood = Inl (KeyError ''neighbourhood'')"
    by (simp add: barrios_of_def getitem_def listings_without_neighbourhood_def)
  have a: "''city'' \<in> set (columns listings_without_neighbourhood) \<and>
      narrow_city ''madrid'' listings_without_neighbourhood =
        Inr \<lparr>nrows = 0, cols = [(''city'', []), (''price'', [])]\<rparr> \<and>
      nrows \<lparr>nrows = 0, cols = [(''city'', []), (''price'', [])]\<rparr> = 0"
    by code_simp
  have b: "''city'' \<in> set (columns example_listings) \<and>
      narrow_city ''madrid'' example_listings =
        Inr \<lparr>nrows = 1, cols = [(''city'', [Str ''Madrid'']), (''neighbourhood'', [Str ''Sol'']),
          (''price'', [Flt (Num 70)]), (''days_rented'', [Flt (Num 300)])]\<rparr> \<and>
      0 < nrows \<lparr>nrows = 1, cols = [(''city'', [Str ''Madrid'']), (''neighbourhood'', [Str ''Sol'']),
          (''price'', [Flt (Num 70)]), (''days_rented'', [Flt (Num 300)])]\<rparr> \<and>
      barrios_of \<lparr>nrows = 1, cols = [(''city'', [Str ''Madrid'']), (''neighbourhood'', [Str ''Sol'']),
          (''price'', [Flt (Num 70)]), (''days_rented'', [Flt (Num 300)])]\<rparr> = Inr [Str ''Sol''] \<and>
      narrow_barrios (multiselect [Str ''Sol''] [Str ''Sol''] (Some [Str ''Salamanca'']))
        \<lparr>nrows = 1, cols = [(''city'', [Str ''Madrid'']), (''neighbourhood'', [Str ''Sol'']),
          (''price'', [Flt (Num 70)]), (''days_rented'', [Flt (Num 300)])]\<rparr> =
        Inr \<lparr>nrows = 0, cols = [(''city'', []), (''neighbourhood'', []), (''price'', []),
          (''days_rented'', [])]\<rparr> \<and>
      nrows \<lparr>nrows = 0, cols = [(''city'', []), (''neighbourhood'', []), (''price'', []),
          (''days_rented'', [])]\<rparr> = 0"
    by code_simp
  have c: "''city'' \<notin> set (columns listings_without_city) \<and>
      barrios_of listings_without_city = Inr [Str ''Russafa''] \<and>
      narrow_barrios (multiselect [Str ''Russafa''] [Str ''Russafa''] (Some [Str ''Salamanca'']))
        listings_without_city = Inr \<lparr>nrows = 0, cols = [(''neighbourhood'', []), (''price'', [])]\<rparr> \<and>
      nrows \<lparr>nrows = 0, cols = [(''neighbourhood'', []), (''price'', [])]\<rparr> = 0"
    by code_simp
  show ?thesis
    using k a b c
      no_matching_data_stops[of listings_without_neighbourhood "''madrid''"
        "\<lparr>nrows = 0, cols = [(''city'', []), (''price'', [])]\<rparr>" "Some [Str ''Salamanca'']"
        example_listings
        "\<lparr>nrows = 1, cols = [(''city'', [Str ''Madrid'']), (''neighbourhood'', [Str ''Sol'']),
          (''price'', [Flt (Num 70)]), (''days_rented'', [Flt (Num 300)])]\<rparr>"
        "[Str ''Sol'']"
        "\<lparr>nrows = 0, cols = [(''city'', []), (''neighbourhood'', []), (''price'', []),
          (''days_rented'', [])]\<rparr>"
        listings_without_city "[Str ''Russafa'']"
        "\<lparr>nrows = 0, cols = [(''neighbourhood'', []), (''price'', [])]\<rparr>"]
    by simp
qed

lemma narrow_city_fixed:
  assumes "wf_frame out" and "getitem out ''city'' = Inr co"
    and "list_all (city_cell_matches ciudad) co"
  shows "narrow_city ciudad out = Inr out"
proof -
  have "has_str_accessor co"
  proof (cases co)
    case Nil
    then show ?thesis by (simp add: has_str_accessor_def)
  next
    case (Cons x xs)
    with assms(3) have "is_Str x" by (cases x) (simp_all add: city_cell_matches_def)
    with Cons show ?thesis by (simp add: has_str_accessor_def)
  qed
  then have lc: "str_lower co = Inr (map (\<lambda>x. case x of Str s \<Rightarrow> Str (lower s) | Flt v \<Rightarrow> Flt NaN) co)"
    by (simp add: str_lower_def)
  have m: "eq_scalar (map (\<lambda>x. case x of Str s \<Rightarrow> Str (lower s) | Flt v \<Rightarrow> Flt NaN) co) (lower ciudad)
      = map (city_cell_matches ciudad) co"
    unfolding eq_scalar_def by (auto simp: city_cell_matches_def split: cell.splits)
  have "list_all id (map (city_cell_matches ciudad) co)"
    using assms(3) by (simp add: list_all_iff)
  moreover have "length (map (city_cell_matches ciudad) co) = nrows out"
    using wf_frame_length[OF assms(1,2)] by simp
  ultimately have "loc_mask out (map (city_cell_matches ciudad) co) = out"
    using assms(1) by (intro loc_mask_all)
  then show ?thesis by (simp add: narrow_city_def assms(2) lc m)
qed

lemma filter_barrios_idem:
  assumes "wf_frame d" and "filter_barrios msg choice d = (shown, Inr out)"
  shows "filter_barrios msg' choice out = ([], Inr out)"
proof -
  from assms(2) obtain barrios where b: "barrios_of d = Inr barrios"
    and n: "narrow_barrios (multiselect barrios barrios choice) d = Inr out"
    and ne: "\<not> empty_frame out"
    by (rule filter_barrios_Inr)
  let ?keep = "multiselect barrios barrios choice"
  from b obtain c where c: "getitem d ''neighbourhood'' = Inr c"
    and s: "sorted_py (unique (dropna c)) = Inr barrios"
    and u: "set barrios = set c - {Flt NaN}"
    by (rule barrios_of_Inr)
  from n c have out: "out = loc_mask d (map (\<lambda>x. x \<in> set ?keep) c)"
    by (auto elim!: narrow_barrios_Inr)
  have wf_out: "wf_frame out"
    using narrow_barrios_rows[OF assms(1) n] by simp
  let ?c' = "filter (\<lambda>x. x \<in> set ?keep) c"
  have c': "getitem out ''neighbourhood'' = Inr ?c'"
    unfolding out by (simp add: getitem_loc_mask c select_rows_map_pred)
  have sub: "set ?c' \<subseteq> set barrios"
    using set_multiselect[of barrios choice] by auto
  then have "set (unique (dropna ?c')) \<subseteq> set (unique (dropna c))"
    using u by (auto simp: set_unique set_dropna)
  with s obtain barrios' where s': "sorted_py (unique (dropna ?c')) = Inr barrios'"
    using sorted_py_subset by blast
  have b': "barrios_of out = Inr barrios'"
    by (simp add: barrios_of_def c' s')
  have u': "set barrios' = set ?c'"
    using sorted_py_Inr[OF s' distinct_unique] sub u
    by (auto simp: set_unique set_dropna)
  let ?keep' = "multiselect barrios' barrios' choice"
  have all: "\<forall>x \<in> set ?c'. x \<in> set ?keep'"
    using u' by (auto simp: multiselect_def split: option.splits)
  have "list_all id (map (\<lambda>x. x \<in> set ?keep') ?c')"
    using all by (simp add: list_all_iff)
  moreover have "length (map (\<lambda>x. x \<in> set ?keep') ?c') = nrows out"
    using wf_frame_length[OF wf_out c'] by simp
  ultimately have "loc_mask out (map (\<lambda>x. x \<in> set ?keep') ?c') = out"
    using wf_out by (intro loc_mask_all)
  then have "narrow_barrios ?keep' out = Inr out"
    by (simp add: narrow_barrios_def c' isin_def)
  with b' ne show ?thesis by (simp add: filter_barrios_def)
qed

lemma filter_barrios_city_column:
  assumes "filter_barrios msg choice d = (shown, Inr out)" and "getitem d ''city'' = Inr c"
  shows "\<exists>co. getitem out ''city'' = Inr co \<and> set co \<subseteq> set c"
proof -
  from assms(1) obtain barrios where
    "narrow_barrios (multiselect barrios barrios choice) d = Inr out"
    by (rule filter_barrios_Inr)
  then obtain keep where "out = loc_mask d keep"
    by (auto elim!: narrow_barrios_Inr)
  then show ?thesis
    using assms(2) set_select_rows[of keep c] by (simp add: getitem_loc_mask)
qed

text \<open>
  Claim C7. Filtering is idempotent: when the filters hand on a table, running them again
  on that table, with the same selected city and the same picks of districts, shows the
  same notices and hands on the same table.
\<close>

theorem filter_listings_idempotent:
  assumes "wf_frame df" and "filter_listings ciudad choice df = (shown, Inr out)"
  shows "filter_listings ciudad choice out = (shown, Inr out)"
  using assms(2)
proof (cases rule: filter_listings_Inr)
  case (city d)
  from city(2) obtain c where c: "getitem df ''city'' = Inr c"
    and d: "d = loc_mask df (map (city_cell_matches ciudad) c)"
    by (rule narrow_city_Inr)
  from narrow_city_rows[OF assms(1) city(2)] have wf_d: "wf_frame d" by simp
  have cd: "getitem d ''city'' = Inr (filter (city_cell_matches ciudad) c)"
    unfolding d by (simp add: getitem_loc_mask c select_rows_map_pred)
  from filter_barrios_city_column[OF city(4) cd] obtain co where
    co: "getitem out ''city'' = Inr co" and sub: "set co \<subseteq> set (filter (city_cell_matches ciudad) c)"
    by blast
  from city(4) have sh: "shown = []" and ne: "\<not> empty_frame out"
    by (auto elim!: filter_barrios_Inr)
  from wf_d city(4) have wf_out: "wf_frame out"
    by (rule filter_barrios_rows)
  have "list_all (city_cell_matches ciudad) co"
    using sub by (auto simp: list_all_iff)
  with wf_out co have nc: "narrow_city ciudad out = Inr out"
    by (rule narrow_city_fixed)
  have "''city'' \<in> set (columns out)"
    using co by (rule getitem_Inr_columns)
  moreover have "filter_barrios ''No hay datos para los barrios seleccionados en la ciudad.''
      choice out = ([], Inr out)"
    using wf_d city(4) by (rule filter_barrios_idem)
  ultimately show ?thesis
    using nc ne sh by (simp add: filter_listings_def)
next
  case no_city
  from assms(1) no_city(2) have cl: "columns out = columns df"
    by (rule filter_barrios_rows)
  have "filter_barrios ''No hay datos para los barrios seleccionados.'' choice out = ([], Inr out)"
    using assms(1) no_city(2) by (rule filter_barrios_idem)
  with cl no_city(1,3) show ?thesis
    by (simp add: filter_listings_def)
qed

theorem filter_listings_idempotent_witness:
  "wf_frame example_listings \<and>
   filter_listings ''Valencia'' None example_listings = ([], Inr example_filtered) \<and>
   filter_listings ''Valencia'' None example_filtered = ([], Inr example_filtered)"
  using wf_example_listings example_listings_filtered
    filter_listings_idempotent[OF wf_example_listings example_listings_filtered]
  by simp

end
